theory Spec2Isabelle
  imports Main "HOL-Library.Sublist" "HOL-Library.Word"
begin

section \<open>Strings and bytes of the Python runtime\<close>

text \<open>
  A Python \<open>str\<close> is modelled as a HOL \<open>string\<close>, a \<open>bytes\<close> object as a list of
  8-bit words. The characters of a \<open>string\<close> are read as the bytes of the text in
  UTF-8, so the ASCII characters the program inspects (\<open>tos://\<close>, \<open>/\<close>, the file
  extensions) are single characters of the model.
\<close>

type_synonym byte = "8 word"

text \<open>
  \<open>str.lower()\<close>. The letters \<open>A\<close> to \<open>Z\<close> go to \<open>a\<close> to \<open>z\<close>; every other
  character of the model stays. Python also lowers letters beyond ASCII; none of them
  yields a character of the six extensions \<open>is_text_file\<close> looks for.
\<close>

definition lower_char :: "char \<Rightarrow> char" where
  "lower_char c =
     (let n = (of_char c :: nat)
      in if 65 \<le> n \<and> n \<le> 90 then char_of (n + 32) else c)"

definition lower :: "string \<Rightarrow> string" where
  "lower s = map lower_char s"

text \<open>\<open>s.startswith(p)\<close> and \<open>s.endswith(p)\<close>.\<close>

definition startswith :: "string \<Rightarrow> string \<Rightarrow> bool" where
  "startswith s p = (take (length p) s = p)"

definition endswith :: "string \<Rightarrow> string \<Rightarrow> bool" where
  "endswith s p = (length p \<le> length s \<and> drop (length s - length p) s = p)"

section \<open>The storage client adapter: \<open>TosResource.is_text_file\<close>\<close>

text \<open>
  \<^verbatim>\<open>
  def is_text_file(self, key: str) -> bool:
      text_exts = {'.txt', '.log', '.csv', '.json', '.xml', '.md'}
      return any(key.lower().endswith(ext) for ext in text_exts)
  \<close>
  The set literal is a list here; \<open>any\<close> does not depend on the order of iteration.
\<close>

definition text_exts :: "string list" where
  "text_exts = [''.txt'', ''.log'', ''.csv'', ''.json'', ''.xml'', ''.md'']"

definition is_text_file :: "string \<Rightarrow> bool" where
  "is_text_file key = list_ex (\<lambda>ext. endswith (lower key) ext) text_exts"

section \<open>Exceptions\<close>

text \<open>
  The exceptions the program raises, catches or lets through. What the program observes
  of an exception is its class (\<open>except TosServerError\<close>, \<open>except ValueError\<close>,
  \<open>except Exception\<close>), the attributes \<open>status_code\<close> and \<open>message\<close> of a
  \<open>TosServerError\<close>, and the text \<open>str(e)\<close>. A \<open>TosServerError\<close> carries its
  rendering as a third field, since the SDK defines it. \<open>UnicodeDecodeError\<close> and
  pydantic's \<open>ValidationError\<close> are subclasses of \<open>ValueError\<close> in Python; their
  messages are the library's and are kept short here. \<open>AttributeError\<close> is what
  reading an attribute that an object does not have raises; it carries the name of the
  attribute. \<open>OtherException\<close> is any other subclass of \<open>Exception\<close> a library call
  raises.
\<close>

datatype exn =
    TosServerError (status_code: int) (message: string) (rendering: string)
  | ValueError string
  | UnicodeDecodeError string
  | ValidationError string
  | AttributeError string
  | OtherException string

fun exn_str :: "exn \<Rightarrow> string" where
  "exn_str (TosServerError sc msg r) = r"
| "exn_str (ValueError msg) = msg"
| "exn_str (UnicodeDecodeError msg) = msg"
| "exn_str (ValidationError msg) = msg"
| "exn_str (AttributeError msg) = msg"
| "exn_str (OtherException msg) = msg"

section \<open>More of the Python runtime\<close>

text \<open>
  \<open>s.split(sep, 1)\<close> for a separator of one character: the whole string when the
  separator does not occur, otherwise the part before its first occurrence and the part
  after it.
\<close>

definition split_once :: "string \<Rightarrow> char \<Rightarrow> string list" where
  "split_once s sep =
     (if sep \<in> set s
      then [takeWhile (\<lambda>c. c \<noteq> sep) s, tl (dropWhile (\<lambda>c. c \<noteq> sep) s)]
      else [s])"

text \<open>\<open>sep.join(xs)\<close>.\<close>

fun join :: "string \<Rightarrow> string list \<Rightarrow> string" where
  "join sep [] = []"
| "join sep [x] = x"
| "join sep (x # y # ys) = x @ sep @ join sep (y # ys)"

text \<open>
  \<open>repr\<close> of a \<open>str\<close> and of a \<open>bytes\<close> object. The quote is the single quote, unless
  the value holds a single quote and no double quote. The quote and the backslash are
  escaped with a backslash, tab, newline and carriage return are written \<open>\t\<close>, \<open>\n\<close>,
  \<open>\r\<close>, and the other control characters as \<open>\xNN\<close>. A \<open>bytes\<close> object writes every
  byte from 127 on as \<open>\xNN\<close> too and puts \<open>b\<close> before the opening quote; a \<open>str\<close>
  copies the characters beyond ASCII. Python copies the printable ones only and escapes
  the others, U+00AD for one; \<open>str_repr\<close> is Python's \<open>repr\<close> on the strings that hold
  no such character.
  \<open>str\<close> of a list of strings is the \<open>repr\<close> of its elements, separated by a comma and
  a space, in square brackets; \<open>str\<close> of a \<open>bytes\<close> object is its \<open>repr\<close>.
\<close>

definition hex_digit :: "nat \<Rightarrow> char" where
  "hex_digit n = ''0123456789abcdef'' ! n"

definition repr_char :: "bool \<Rightarrow> char \<Rightarrow> char \<Rightarrow> string" where
  "repr_char is_bytes q c =
     (let n = (of_char c :: nat)
      in if c = q \<or> c = CHR 0x5C then [CHR 0x5C, c]
         else if c = CHR 0x09 then [CHR 0x5C, CHR ''t'']
         else if c = CHR 0x0A then [CHR 0x5C, CHR ''n'']
         else if c = CHR 0x0D then [CHR 0x5C, CHR ''r'']
         else if n < 32 \<or> n = 127 \<or> (is_bytes \<and> 127 < n)
         then [CHR 0x5C, CHR ''x'', hex_digit (n div 16), hex_digit (n mod 16)]
         else [c])"

definition repr_quote :: "string \<Rightarrow> char" where
  "repr_quote s = (if CHR 0x27 \<in> set s \<and> CHR 0x22 \<notin> set s then CHR 0x22 else CHR 0x27)"

definition str_repr :: "string \<Rightarrow> string" where
  "str_repr s = [repr_quote s] @ concat (map (repr_char False (repr_quote s)) s) @ [repr_quote s]"

definition byte_char :: "byte \<Rightarrow> char" where
  "byte_char b = char_of (unat b)"

definition bytes_repr :: "byte list \<Rightarrow> string" where
  "bytes_repr bs =
     (let s = map byte_char bs
      in ''b'' @ [repr_quote s] @ concat (map (repr_char True (repr_quote s)) s) @ [repr_quote s])"

definition str_of_str_list :: "string list \<Rightarrow> string" where
  "str_of_str_list xs = ''['' @ join '', '' (map str_repr xs) @ '']''"

text \<open>
  \<open>bytes.decode('utf-8')\<close>. The bytes must be well-formed UTF-8 (no overlong form, no
  surrogate, nothing above U+10FFFF); the text is then the same bytes, since the
  characters of a \<open>string\<close> are the bytes of its UTF-8 form. Otherwise the call raises
  \<open>UnicodeDecodeError\<close>.
\<close>

definition continuation :: "nat \<Rightarrow> bool" where
  "continuation b = (0x80 \<le> b \<and> b \<le> 0xBF)"

fun valid_utf8 :: "nat list \<Rightarrow> bool" where
  "valid_utf8 [] = True"
| "valid_utf8 (a # bs) =
     (if a < 0x80 then valid_utf8 bs
      else if 0xC2 \<le> a \<and> a \<le> 0xDF then
        (case bs of
           b # r \<Rightarrow> continuation b \<and> valid_utf8 r
         | _ \<Rightarrow> False)
      else if 0xE0 \<le> a \<and> a \<le> 0xEF then
        (case bs of
           b # c # r \<Rightarrow>
             (if a = 0xE0 then 0xA0 \<le> b \<and> b \<le> 0xBF
              else if a = 0xED then 0x80 \<le> b \<and> b \<le> 0x9F
              else continuation b)
             \<and> continuation c \<and> valid_utf8 r
         | _ \<Rightarrow> False)
      else if 0xF0 \<le> a \<and> a \<le> 0xF4 then
        (case bs of
           b # c # d # r \<Rightarrow>
             (if a = 0xF0 then 0x90 \<le> b \<and> b \<le> 0xBF
              else if a = 0xF4 then 0x80 \<le> b \<and> b \<le> 0x8F
              else continuation b)
             \<and> continuation c \<and> continuation d \<and> valid_utf8 r
         | _ \<Rightarrow> False)
      else False)"

definition decode_utf8 :: "byte list \<Rightarrow> exn + string" where
  "decode_utf8 bs =
     (if valid_utf8 (map unat bs) then Inr (map byte_char bs)
      else Inl (UnicodeDecodeError ''utf-8 codec cannot decode bytes''))"

text \<open>
  \<open>base64.b64encode\<close>: the standard alphabet, three bytes to four characters, padded
  with \<open>=\<close>. The result is a \<open>bytes\<close> object.
\<close>

definition b64_char :: "nat \<Rightarrow> byte" where
  "b64_char n =
     of_nat (of_char
       (''ABCDEFGHIJKLMNOPQRSTUVWXYZabcdefghijklmnopqrstuvwxyz0123456789+/'' ! n) :: nat)"

fun b64encode :: "byte list \<Rightarrow> byte list" where
  "b64encode [] = []"
| "b64encode [a] =
     (let n = unat a * 16
      in [b64_char (n div 64), b64_char (n mod 64), 0x3D, 0x3D])"
| "b64encode [a, b] =
     (let n = unat a * 1024 + unat b * 4
      in [b64_char (n div 4096), b64_char (n div 64 mod 64), b64_char (n mod 64), 0x3D])"
| "b64encode (a # b # c # rest) =
     (let n = unat a * 65536 + unat b * 256 + unat c
      in [b64_char (n div 262144), b64_char (n div 4096 mod 64),
          b64_char (n div 64 mod 64), b64_char (n mod 64)] @ b64encode rest)"

text \<open>
  A byte that \<open>repr\<close> copies as it is whatever the quote: a printable ASCII character
  other than the two quotes and the backslash. The base64 alphabet and the padding
  character are such bytes.
\<close>

definition plain :: "nat \<Rightarrow> bool" where
  "plain n = (32 \<le> n \<and> n < 127 \<and> n \<noteq> 39 \<and> n \<noteq> 34 \<and> n \<noteq> 92)"

section \<open>The storage SDK client\<close>

text \<open>
  The SDK (\<open>tos.TosClientV2\<close>) is outside the repository. It is a parameter of the
  model: a record that gives, for every call the program makes, either the exception the
  call raises or the object it returns. Of the returned objects only the attributes the
  program reads are kept: \<open>b.name\<close> of a listed bucket is \<open>bucket_name\<close>, \<open>obj.key\<close>
  of a listed object is \<open>object_key\<close>.
\<close>

datatype py_val =
    PyNone | PyBool bool | PyInt int | PyStr string
  | PyList "py_val list" | PyDict "(string \<times> py_val) list"

type_synonym kwargs = "(string \<times> py_val) list"

record ListedBucket =
  bucket_name :: string

record ListedObject =
  object_key :: string

record ListBucketsOutput =
  buckets :: "ListedBucket list"

text \<open>\<open>objects_str\<close> is \<open>str(objects)\<close>, the SDK's rendering of the whole output.\<close>

record ListObjectsOutput =
  contents :: "ListedObject list"
  objects_str :: string

text \<open>
  \<open>data\<close> are the chunks that iterating \<open>response.content.data\<close> yields, \<open>read\<close> is
  \<open>response.content.read()\<close>, \<open>items\<close> is \<open>response.content.items()\<close>; reading the
  body may raise.
\<close>

record GetObjectOutput =
  content_type :: "string option"
  data :: "exn + byte list list"
  read :: "exn + byte list"
  items :: "(string \<times> string) list"

record TosClientV2 =
  client_list_buckets :: "exn + ListBucketsOutput"
  client_list_objects :: "kwargs \<Rightarrow> exn + ListObjectsOutput"
  client_get_object :: "py_val list \<Rightarrow> kwargs \<Rightarrow> exn + GetObjectOutput"

text \<open>
  Every operation returns the calls it made to the SDK, in order, beside its result or
  the exception it raised. Log lines are not part of the model.
\<close>

datatype backend_call =
    ListBucketsCall
  | ListObjectsCall kwargs
  | GetObjectCall "py_val list" kwargs

type_synonym 'a io = "backend_call list \<times> (exn + 'a)"

section \<open>The storage client adapter: \<open>TosResource\<close>\<close>

text \<open>
  \<open>configured_buckets\<close> is the allow-list, loaded once by the constructor from
  \<open>TOS_BUCKETS\<close>; the model takes the loaded list.
\<close>

record TosResource =
  client :: TosClientV2
  max_buckets :: int
  configured_buckets :: "string list"

text \<open>
  \<^verbatim>\<open>
  async def list_buckets(self) -> List[ListedBucket]:
      try:
          response = self.client.list_buckets()
          if self.configured_buckets:
              return [b for b in response.buckets if b.name in self.configured_buckets]
          return response.buckets
      except TosServerError as e:
          logger.error(f"List buckets error: {e.message}")
          raise
  \<close>
\<close>

definition list_buckets :: "TosResource \<Rightarrow> ListedBucket list io" where
  "list_buckets self =
     ([ListBucketsCall],
      (case client_list_buckets (client self) of
         Inl e \<Rightarrow> Inl e
       | Inr response \<Rightarrow>
           if configured_buckets self \<noteq> []
           then Inr (filter (\<lambda>b. bucket_name b \<in> set (configured_buckets self))
                       (buckets response))
           else Inr (buckets response)))"

text \<open>
  \<^verbatim>\<open>
  async def list_objects(self, bucket: str, prefix: str = "", marker: str = None):
      try:
          response = self.client.list_objects(
              bucket=bucket, prefix=prefix, marker=marker, max_keys=1000)
          return response.contents
      except TosServerError as e:
          logger.error(f"List objects error in {bucket}: {e.message}")
          raise
  \<close>
\<close>

definition list_objects_kwargs :: "string \<Rightarrow> string \<Rightarrow> string option \<Rightarrow> kwargs" where
  "list_objects_kwargs bucket pre marker =
     [(''bucket'', PyStr bucket), (''prefix'', PyStr pre),
      (''marker'', (case marker of None \<Rightarrow> PyNone | Some m \<Rightarrow> PyStr m)),
      (''max_keys'', PyInt 1000)]"

definition list_objects ::
  "TosResource \<Rightarrow> string \<Rightarrow> string \<Rightarrow> string option \<Rightarrow> ListedObject list io" where
  "list_objects self bucket pre marker =
     ([ListObjectsCall (list_objects_kwargs bucket pre marker)],
      (case client_list_objects (client self) (list_objects_kwargs bucket pre marker) of
         Inl e \<Rightarrow> Inl e
       | Inr response \<Rightarrow> Inr (contents response)))"

text \<open>
  \<^verbatim>\<open>
  async def get_object(self, bucket: str, key: str) -> Dict[str, Any]:
      try:
          response = self.client.get_object(bucket, key)
          content = b''
          async for chunk in response.content.data:
              content += chunk
          return {
              'content_type': response.content_type,
              'content': content,
              'metadata': {k.lower(): v for k, v in response.content.items()}
          }
      except TosServerError as e:
          if e.status_code == 404:
              raise ValueError(f"Object {key} not found in {bucket}")
          logger.error(f"Get object error: {e.message}")
          raise
  \<close>
  \<open>get_object_except\<close> is the \<open>except\<close> clause: the exception that leaves the
  function when \<open>e\<close> was raised inside the \<open>try\<close>. The returned dictionary is a
  record; its \<open>metadata\<close> dictionary is an association list in insertion order.
\<close>

record object_dict =
  dict_content_type :: "string option"
  dict_content :: "byte list"
  dict_metadata :: "(string \<times> string) list"

fun dict_set :: "'k \<Rightarrow> 'v \<Rightarrow> ('k \<times> 'v) list \<Rightarrow> ('k \<times> 'v) list" where
  "dict_set k v [] = [(k, v)]"
| "dict_set k v ((k', v') # d) = (if k = k' then (k, v) # d else (k', v') # dict_set k v d)"

definition get_object_except :: "string \<Rightarrow> string \<Rightarrow> exn \<Rightarrow> exn" where
  "get_object_except bucket key e =
     (case e of
        TosServerError sc msg r \<Rightarrow>
          if sc = 404 then ValueError (''Object '' @ key @ '' not found in '' @ bucket)
          else e
      | _ \<Rightarrow> e)"

definition get_object :: "TosResource \<Rightarrow> string \<Rightarrow> string \<Rightarrow> object_dict io" where
  "get_object self bucket key =
     ([GetObjectCall [PyStr bucket, PyStr key] []],
      (case client_get_object (client self) [PyStr bucket, PyStr key] [] of
         Inl e \<Rightarrow> Inl (get_object_except bucket key e)
       | Inr response \<Rightarrow>
           (case data response of
              Inl e \<Rightarrow> Inl (get_object_except bucket key e)
            | Inr chunks \<Rightarrow>
                Inr \<lparr>dict_content_type = content_type response,
                     dict_content = concat chunks,
                     dict_metadata =
                       foldl (\<lambda>d (k, v). dict_set (lower k) v d) [] (items response)\<rparr>)))"

section \<open>The protocol server\<close>

text \<open>
  \<open>Resource\<close>, \<open>TextContent\<close>, \<open>BlobResourceContents\<close> and \<open>ReadResourceResult\<close> are
  pydantic models of the protocol library (\<open>mcp.types\<close>), outside the repository. A
  \<open>Resource\<close> is the record of the three fields the server sets (\<open>name\<close> is
  \<open>resource_name\<close>). The library parses the \<open>uri\<close> it is given as a URL: it rejects a
  string that is no URL and may rewrite the path (\<open>dir/../x.txt\<close> to \<open>x.txt\<close>). The record
  keeps the string the server builds, which is the library's value for the bucket names
  and keys it accepts and leaves as they are.

  \<open>TextContent\<close> declares \<open>type: Literal["text"]\<close> with no default value, and
  \<open>text: str\<close> (\<open>payload_text\<close> in the record). Its constructor is
  \<open>TextContent_init\<close>: the first argument is the keyword \<open>type\<close>, \<open>None\<close> when the
  call does not pass it, and a call that leaves out a required field raises pydantic's
  \<open>ValidationError\<close>.
\<close>

record Resource =
  uri :: string
  resource_name :: string
  mimeType :: string

record TextContent =
  type :: string
  payload_text :: string

definition TextContent_init :: "string option \<Rightarrow> string \<Rightarrow> exn + TextContent" where
  "TextContent_init ty t =
     (case ty of
        None \<Rightarrow> Inl (ValidationError ''type: Field required'')
      | Some v \<Rightarrow>
          if v = ''text'' then Inr \<lparr>type = v, payload_text = t\<rparr>
          else Inl (ValidationError ''type: Input should be text''))"

subsection \<open>\<open>list_resources\<close>\<close>

text \<open>
  \<^verbatim>\<open>
  async def list_resources() -> List[Resource]:
      resources = []
      try:
          buckets = await tos_resource.list_buckets()

          async def process_bucket(bucket: ListedBucket):
              objects = await tos_resource.list_objects(bucket.name)
              for obj in objects:
                  mime_type = "text/plain" if tos_resource.is_text_file(obj.key) \
                      else "application/octet-stream"
                  resources.append(Resource(
                      uri=f"tos://{bucket.name}/{obj.key}",
                      name=obj.key,
                      mimeType=mime_type
                  ))

          sem = asyncio.Semaphore(3)
          async with sem:
              await asyncio.gather(*[process_bucket(b) for b in buckets])

      except Exception as e:
          logger.error(f"Resource listing failed: {str(e)}")
          raise

      return resources
  \<close>
  \<open>process_bucket\<close> returns the resources it appends. \<open>list_objects\<close> awaits nothing,
  so a task started by \<open>gather\<close> runs to its end without giving way to another: the
  tasks run one after the other in the order of the list, each of them whether or not
  an earlier one failed, and \<open>gather\<close> then raises the exception of the first task that
  failed. The appended resources are therefore in bucket order.
\<close>

definition process_bucket :: "TosResource \<Rightarrow> ListedBucket \<Rightarrow> Resource list io" where
  "process_bucket self bucket =
     (case list_objects self (bucket_name bucket) [] None of
        (cs, Inl e) \<Rightarrow> (cs, Inl e)
      | (cs, Inr objects) \<Rightarrow>
          (cs, Inr (map (\<lambda>obj.
                      \<lparr>uri = ''tos://'' @ bucket_name bucket @ ''/'' @ object_key obj,
                       resource_name = object_key obj,
                       mimeType = (if is_text_file (object_key obj) then ''text/plain''
                                   else ''application/octet-stream'')\<rparr>) objects)))"

fun first_exception :: "(exn + 'a) list \<Rightarrow> exn + 'a list" where
  "first_exception [] = Inr []"
| "first_exception (Inl e # rs) = Inl e"
| "first_exception (Inr x # rs) =
     (case first_exception rs of Inl e \<Rightarrow> Inl e | Inr xs \<Rightarrow> Inr (x # xs))"

definition gather :: "'a io list \<Rightarrow> 'a list io" where
  "gather tasks = (concat (map fst tasks), first_exception (map snd tasks))"

definition list_resources :: "TosResource \<Rightarrow> Resource list io" where
  "list_resources self =
     (case list_buckets self of
        (cs, Inl e) \<Rightarrow> (cs, Inl e)
      | (cs, Inr bs) \<Rightarrow>
          (case gather (map (process_bucket self) bs) of
             (cs', Inl e) \<Rightarrow> (cs @ cs', Inl e)
           | (cs', Inr appended) \<Rightarrow> (cs @ cs', Inr (concat appended))))"

subsection \<open>\<open>read_resource\<close>\<close>

text \<open>
  \<^verbatim>\<open>
  async def read_resource(uri: AnyUrl) -> BlobResourceContents:
      try:
          if not uri.startswith("tos://"):
              raise ValueError("Invalid TOS URI format")

          path = uri[6:]
          bucket, key = path.split("/", 1)

          response = await tos_resource.get_object(bucket, key)

          if tos_resource.is_text_file(key):
              text_content = base64.b64encode(response['content']).decode('utf-8')
              return text_content
          else:
              text_content = str(base64.b64encode(response['content']))
              result = ReadResourceResult(
                  contents=[BlobResourceContents(
                      blob=text_content, uri=uri, mimeType=response.get("content_type"))])
              logger.debug(result)
              return text_content
      except ValueError as e:
          logger.error(f"URI parsing error: {str(e)}")
          raise
      except Exception as e:
          logger.error(f"Read resource failed: {str(e)}")
          raise
  \<close>
  The parameter is declared \<open>uri: AnyUrl\<close>, and the protocol library calls the
  registered handler with such an object. pydantic's \<open>AnyUrl\<close> is not a \<open>str\<close>: it has
  no attribute \<open>startswith\<close>, so the first statement of the \<open>try\<close> raises
  \<open>AttributeError\<close>, which the second \<open>except\<close> clause logs and re-raises. A plain
  \<open>str\<close> reaches the function only in a direct call; the statements then do what they
  say. The argument of the model is one or the other.

  Both \<open>except\<close> clauses log and re-raise, so an exception leaves the function as it
  was raised. Unpacking the list of \<open>split\<close> into two names raises \<open>ValueError\<close> when
  the list has one element. In the second branch \<open>BlobResourceContents(uri=uri)\<close> makes
  pydantic parse the \<open>str\<close> as a URL and raises \<open>ValidationError\<close> when it is none;
  \<open>valid_url\<close> is that check, the library's, a parameter of the model. The
  \<open>ReadResourceResult\<close> is logged and dropped.
\<close>

datatype uri_arg = AnyUrl string | Str string

definition read_resource ::
  "(string \<Rightarrow> bool) \<Rightarrow> TosResource \<Rightarrow> uri_arg \<Rightarrow> string io" where
  "read_resource valid_url self arg =
     (case arg of
        AnyUrl u \<Rightarrow> ([], Inl (AttributeError ''startswith''))
      | Str u \<Rightarrow>
          if \<not> startswith u ''tos://''
          then ([], Inl (ValueError ''Invalid TOS URI format''))
          else
            (case split_once (drop 6 u) CHR ''/'' of
               [bucket, key] \<Rightarrow>
                 (case get_object self bucket key of
                    (cs, Inl e) \<Rightarrow> (cs, Inl e)
                  | (cs, Inr response) \<Rightarrow>
                      if is_text_file key
                      then (cs, decode_utf8 (b64encode (dict_content response)))
                      else if valid_url u
                      then (cs, Inr (bytes_repr (b64encode (dict_content response))))
                      else (cs, Inl (ValidationError ''uri: Input should be a valid URL'')))
             | _ \<Rightarrow>
                 ([], Inl (ValueError ''not enough values to unpack (expected 2, got 1)''))))"

subsection \<open>\<open>call_tool\<close>\<close>

text \<open>
  \<^verbatim>\<open>
  async def call_tool(name: str, args: dict) -> list[TextContent]:
      try:
          match name:
              case "ListBuckets":
                  result = tos_resource.client.list_buckets()
                  return [TextContent(type="text", text=str([b.name for b in result.buckets]))]
              case "ListObjectsV2":
                  objects = tos_resource.client.list_objects(**args)
                  return [TextContent(type="text", text=str(objects))]
              case "GetObject":
                  content = tos_resource.client.get_object(**args)
                  return [TextContent(type="text", text=str(content.content.read().decode('utf-8')))]
              case _:
                  raise ValueError("Unsupported operation")
      except Exception as e:
          return [TextContent(text=f"Error: {str(e)}")]
  \<close>
  \<open>call_tool_try\<close> is the body of the \<open>try\<close>, \<open>call_tool\<close> adds the \<open>except\<close>
  clause. The three \<open>return\<close> statements of the body pass \<open>type="text"\<close>; the one of
  the \<open>except\<close> clause does not.
\<close>

definition text_payload :: "string option \<Rightarrow> string \<Rightarrow> exn + TextContent list" where
  "text_payload ty t =
     (case TextContent_init ty t of Inl e \<Rightarrow> Inl e | Inr c \<Rightarrow> Inr [c])"

definition call_tool_try :: "TosResource \<Rightarrow> string \<Rightarrow> kwargs \<Rightarrow> TextContent list io" where
  "call_tool_try self name args =
     (if name = ''ListBuckets'' then
        ([ListBucketsCall],
         (case client_list_buckets (client self) of
            Inl e \<Rightarrow> Inl e
          | Inr result \<Rightarrow>
              text_payload (Some ''text'')
                (str_of_str_list (map bucket_name (buckets result)))))
      else if name = ''ListObjectsV2'' then
        ([ListObjectsCall args],
         (case client_list_objects (client self) args of
            Inl e \<Rightarrow> Inl e
          | Inr objects \<Rightarrow> text_payload (Some ''text'') (objects_str objects)))
      else if name = ''GetObject'' then
        ([GetObjectCall [] args],
         (case client_get_object (client self) [] args of
            Inl e \<Rightarrow> Inl e
          | Inr content \<Rightarrow>
              (case read content of
                 Inl e \<Rightarrow> Inl e
               | Inr body \<Rightarrow>
                   (case decode_utf8 body of
                      Inl e \<Rightarrow> Inl e
                    | Inr t \<Rightarrow> text_payload (Some ''text'') t))))
      else ([], Inl (ValueError ''Unsupported operation'')))"

definition call_tool :: "TosResource \<Rightarrow> string \<Rightarrow> kwargs \<Rightarrow> TextContent list io" where
  "call_tool self name args =
     (case call_tool_try self name args of
        (cs, Inr payload) \<Rightarrow> (cs, Inr payload)
      | (cs, Inl e) \<Rightarrow> (cs, text_payload None (''Error: '' @ exn_str e)))"

section \<open>A sample backend\<close>

text \<open>
  A backend with three buckets, used to run the operations on concrete inputs. Bucket
  \<open>b\<close> holds the two-byte object \<open>hi\<close> under the keys \<open>k\<close> and \<open>k.txt\<close>; the key
  \<open>gone\<close> is answered with status 404 and the key \<open>secret\<close> with status 403; listing
  the objects of bucket \<open>c\<close> fails.
\<close>

definition sample_body :: "byte list" where
  "sample_body = [0x68, 0x69]"

definition sample_get_object :: "py_val list \<Rightarrow> kwargs \<Rightarrow> exn + GetObjectOutput" where
  "sample_get_object pos kw =
     (if pos = [PyStr ''b'', PyStr ''k''] \<or> pos = [PyStr ''b'', PyStr ''k.txt'']
      then Inr \<lparr>content_type = Some ''binary/octet-stream'', data = Inr [sample_body],
                read = Inr sample_body, items = []\<rparr>
      else if pos = [PyStr ''b'', PyStr ''gone'']
      then Inl (TosServerError 404 ''The specified key does not exist.'' ''NoSuchKey'')
      else if pos = [PyStr ''b'', PyStr ''secret'']
      then Inl (TosServerError 403 ''Access Denied'' ''AccessDenied'')
      else Inl (OtherException ''unexpected arguments''))"

definition sample_list_objects :: "kwargs \<Rightarrow> exn + ListObjectsOutput" where
  "sample_list_objects kw =
     (if kw = list_objects_kwargs ''a'' [] None
      then Inr \<lparr>contents = [\<lparr>object_key = ''notes.txt''\<rparr>, \<lparr>object_key = ''img.bin''\<rparr>],
                objects_str = ''a: notes.txt img.bin''\<rparr>
      else if kw = list_objects_kwargs ''b'' [] None
      then Inr \<lparr>contents = [\<lparr>object_key = ''k''\<rparr>], objects_str = ''b: k''\<rparr>
      else Inl (TosServerError 500 ''Internal error'' ''InternalError''))"

definition sample_client :: TosClientV2 where
  "sample_client =
     \<lparr>client_list_buckets =
        Inr \<lparr>buckets = [\<lparr>bucket_name = ''a''\<rparr>, \<lparr>bucket_name = ''b''\<rparr>,
                         \<lparr>bucket_name = ''c''\<rparr>]\<rparr>,
      client_list_objects = sample_list_objects,
      client_get_object = sample_get_object\<rparr>"

definition sample_resource :: "string list \<Rightarrow> TosResource" where
  "sample_resource allow =
     \<lparr>client = sample_client, max_buckets = 5, configured_buckets = allow\<rparr>"

section \<open>Properties\<close>

subsection \<open>Auxiliary facts\<close>

lemma endswith_suffix: "endswith s p \<longleftrightarrow> suffix p s"
proof
  assume "endswith s p"
  then have "s = take (length s - length p) s @ p"
    by (metis append_take_drop_id endswith_def)
  then show "suffix p s"
    by (metis suffixI)
next
  assume "suffix p s"
  then obtain q where "s = q @ p"
    by (auto simp: suffix_def)
  then show "endswith s p"
    by (simp add: endswith_def)
qed

lemma first_exception_raises:
  "\<exists>x\<in>set rs. isl x \<Longrightarrow> \<exists>e. first_exception rs = Inl e \<and> Inl e \<in> set rs"
  by (induction rs rule: first_exception.induct) (auto split: sum.splits)

lemma first_exception_returns:
  "first_exception rs = Inr xs \<Longrightarrow> rs = map Inr xs"
  by (induction rs arbitrary: xs rule: first_exception.induct) (auto split: sum.splits)

lemma list_buckets_names:
  assumes "configured_buckets self \<noteq> []" and "snd (list_buckets self) = Inr bs"
    and "b \<in> set bs"
  shows "bucket_name b \<in> set (configured_buckets self)"
  using assms by (auto simp: list_buckets_def split: sum.splits)

lemma process_bucket_snd:
  "snd (process_bucket self b) =
     (case snd (list_objects self (bucket_name b) [] None) of
        Inl e \<Rightarrow> Inl e
      | Inr objects \<Rightarrow>
          Inr (map (\<lambda>obj.
                 \<lparr>uri = ''tos://'' @ bucket_name b @ ''/'' @ object_key obj,
                  resource_name = object_key obj,
                  mimeType = (if is_text_file (object_key obj) then ''text/plain''
                              else ''application/octet-stream'')\<rparr>) objects))"
  by (simp add: process_bucket_def split: prod.splits sum.splits)

lemma process_bucket_uri:
  assumes "snd (process_bucket self b) = Inr rs" and "r \<in> set rs"
  shows "\<exists>k. uri r = ''tos://'' @ bucket_name b @ ''/'' @ k"
  using assms by (auto simp: process_bucket_snd split: sum.splits)

lemma list_resources_snd:
  "snd (list_resources self) =
     (case snd (list_buckets self) of
        Inl e \<Rightarrow> Inl e
      | Inr bs \<Rightarrow>
          (case first_exception (map (\<lambda>b. snd (process_bucket self b)) bs) of
             Inl e \<Rightarrow> Inl e
           | Inr appended \<Rightarrow> Inr (concat appended)))"
  by (simp add: list_resources_def gather_def comp_def split: prod.splits sum.splits)

lemma list_resources_uris:
  assumes "configured_buckets self \<noteq> []" and "snd (list_resources self) = Inr rs"
    and "r \<in> set rs"
  shows "\<exists>n\<in>set (configured_buckets self). \<exists>k. uri r = ''tos://'' @ n @ ''/'' @ k"
proof -
  from assms(2) obtain bs appended where bs: "snd (list_buckets self) = Inr bs"
    and fe: "first_exception (map (\<lambda>b. snd (process_bucket self b)) bs) = Inr appended"
    and rs: "rs = concat appended"
    by (auto simp: list_resources_snd split: sum.splits)
  from fe have eq: "map (\<lambda>b. snd (process_bucket self b)) bs = map Inr appended"
    by (rule first_exception_returns)
  from assms(3) rs obtain x where x: "x \<in> set appended" and rx: "r \<in> set x"
    by auto
  from x have "Inr x \<in> set (map (\<lambda>b. snd (process_bucket self b)) bs)"
    by (simp add: eq)
  then obtain b where b: "b \<in> set bs" and pb: "snd (process_bucket self b) = Inr x"
    by auto
  from process_bucket_uri [OF pb rx] obtain k
    where "uri r = ''tos://'' @ bucket_name b @ ''/'' @ k" ..
  moreover from list_buckets_names [OF assms(1) bs b]
  have "bucket_name b \<in> set (configured_buckets self)" .
  ultimately show ?thesis by blast
qed

lemma call_tool_ListBuckets:
  assumes "client_list_buckets (client self) = Inr response"
  shows "call_tool self ''ListBuckets'' args =
           ([ListBucketsCall],
            Inr [\<lparr>type = ''text'',
                  payload_text = str_of_str_list (map bucket_name (buckets response))\<rparr>])"
  using assms
  by (simp add: call_tool_def call_tool_try_def text_payload_def TextContent_init_def)

lemma sample_list_buckets:
  "client_list_buckets (client (sample_resource allow)) =
     Inr \<lparr>buckets = [\<lparr>bucket_name = ''a''\<rparr>, \<lparr>bucket_name = ''b''\<rparr>,
                      \<lparr>bucket_name = ''c''\<rparr>]\<rparr>"
  by (simp add: sample_resource_def sample_client_def)

lemma sample_configured: "configured_buckets (sample_resource allow) = allow"
  by (simp add: sample_resource_def)

lemma str_of_sample_names:
  "str_of_str_list [''a'', ''b'', ''c''] = ''['a', 'b', 'c']''"
  by (simp add: str_of_str_list_def str_repr_def repr_quote_def repr_char_def)

lemma sample_get_hi:
  "key = ''k'' \<or> key = ''k.txt'' \<Longrightarrow>
   get_object (sample_resource []) ''b'' key =
     ([GetObjectCall [PyStr ''b'', PyStr key] []],
      Inr \<lparr>dict_content_type = Some ''binary/octet-stream'', dict_content = sample_body,
           dict_metadata = []\<rparr>)"
  by (auto simp: get_object_def sample_resource_def sample_client_def sample_get_object_def)

lemma byte_char_aGk:
  "byte_char 0x61 = CHR ''a''" "byte_char 0x47 = CHR ''G''"
  "byte_char 0x6B = CHR ''k''" "byte_char 0x3D = CHR ''=''"
  by code_simp+

lemma b64_char_aGk: "b64_char 26 = 0x61" "b64_char 6 = 0x47" "b64_char 36 = 0x6B"
  by code_simp+

lemma b64encode_hi: "b64encode sample_body = [0x61, 0x47, 0x6B, 0x3D]"
  by (simp add: sample_body_def b64_char_aGk)

lemma bytes_repr_aGk: "bytes_repr [0x61, 0x47, 0x6B, 0x3D] = ''b'aGk='' @ [CHR 0x27]"
  by (simp add: bytes_repr_def byte_char_aGk repr_quote_def repr_char_def)

lemma decode_utf8_aGk: "decode_utf8 [0x61, 0x47, 0x6B, 0x3D] = Inr ''aGk=''"
  by (simp add: decode_utf8_def byte_char_aGk)

text \<open>
  The output of \<open>b64encode\<close> is made of plain bytes, so decoding it as UTF-8 succeeds
  and gives the same characters, and its \<open>repr\<close> adds nothing but \<open>b\<close> and the two
  single quotes. This gives the result of \<open>read_resource\<close> on every fetched object.
\<close>

lemma alphabet_plain:
  "list_all (\<lambda>c. plain (of_char c))
     ''ABCDEFGHIJKLMNOPQRSTUVWXYZabcdefghijklmnopqrstuvwxyz0123456789+/''"
  by (simp add: plain_def)

lemma b64_char_plain:
  assumes "n < 64"
  shows "plain (unat (b64_char n))"
proof -
  let ?a = "''ABCDEFGHIJKLMNOPQRSTUVWXYZabcdefghijklmnopqrstuvwxyz0123456789+/''"
  have "length ?a = 64" by simp
  with assms have "?a ! n \<in> set ?a"
    by (metis nth_mem)
  with alphabet_plain have p: "plain (of_char (?a ! n))"
    by (simp only: list_all_iff)
  then have "(of_char (?a ! n) :: nat) < 256"
    by (simp add: plain_def)
  then have "unat (of_nat (of_char (?a ! n)) :: byte) = of_char (?a ! n)"
    by (simp add: unat_of_nat)
  with p show ?thesis
    by (simp only: b64_char_def)
qed

lemma unat_byte: "unat (a :: byte) < 256"
proof -
  have "unat a < 2 ^ LENGTH(8)" by (rule unsigned_less)
  then show ?thesis by simp
qed

lemma pad_plain: "plain 61"
  by (simp add: plain_def)

lemma b64encode_plain: "b \<in> set (b64encode bs) \<Longrightarrow> plain (unat b)"
proof (induction bs rule: b64encode.induct)
  case 1
  then show ?case by simp
next
  case (2 a)
  have "unat a * 16 div 64 < 64" "unat a * 16 mod 64 < 64"
    using unat_byte [of a] by simp_all
  with 2 show ?case
    by (auto simp: Let_def pad_plain intro: b64_char_plain)
next
  case (3 a b')
  have "(unat a * 1024 + unat b' * 4) div 4096 < 64"
    using unat_byte [of a] unat_byte [of b'] by simp
  with 3 show ?case
    by (auto simp: Let_def pad_plain intro: b64_char_plain)
next
  case (4 a b' c rest)
  have "(unat a * 65536 + unat b' * 256 + unat c) div 262144 < 64"
    using unat_byte [of a] unat_byte [of b'] unat_byte [of c] by simp
  with 4 show ?case
    by (auto simp: Let_def intro: b64_char_plain)
qed

lemma valid_utf8_ascii: "\<forall>n\<in>set ns. n < 128 \<Longrightarrow> valid_utf8 ns"
  by (induction ns) simp_all

lemma decode_utf8_b64encode:
  "decode_utf8 (b64encode bs) = Inr (map byte_char (b64encode bs))"
proof -
  have "\<forall>n\<in>set (map unat (b64encode bs)). n < 128"
  proof
    fix n assume "n \<in> set (map unat (b64encode bs))"
    then obtain b where b: "b \<in> set (b64encode bs)" and n: "n = unat b" by auto
    from b have "plain (unat b)" by (rule b64encode_plain)
    with n show "n < 128" by (simp add: plain_def)
  qed
  then show ?thesis
    by (simp add: decode_utf8_def valid_utf8_ascii)
qed

lemma repr_char_plain:
  assumes "plain (unat b)"
  shows "repr_char True (CHR 0x27) (byte_char b) = [byte_char b]"
proof -
  have n: "(of_char (byte_char b) :: nat) = unat b"
    using unat_byte [of b] by (simp add: byte_char_def)
  have neq: "byte_char b \<noteq> c" if "unat b \<noteq> of_char c" for c
    using that n by auto
  from assms have "byte_char b \<noteq> CHR 0x27" "byte_char b \<noteq> CHR 0x5C"
    "byte_char b \<noteq> CHR 0x09" "byte_char b \<noteq> CHR 0x0A" "byte_char b \<noteq> CHR 0x0D"
    by (auto intro!: neq simp: plain_def)
  with assms n show ?thesis
    by (simp add: repr_char_def plain_def)
qed

lemma bytes_repr_plain:
  assumes "\<forall>b\<in>set bs. plain (unat b)"
  shows "bytes_repr bs = ''b'' @ [CHR 0x27] @ map byte_char bs @ [CHR 0x27]"
proof -
  have n: "(of_char (byte_char b) :: nat) = unat b" for b
    using unat_byte [of b] by (simp add: byte_char_def)
  have "CHR 0x27 \<notin> set (map byte_char bs)"
  proof
    assume "CHR 0x27 \<in> set (map byte_char bs)"
    then obtain b where b: "b \<in> set bs" and "byte_char b = CHR 0x27" by auto
    then have "(of_char (byte_char b) :: nat) = 39" by simp
    with n have "unat b = 39" by simp
    with assms b show False by (auto simp: plain_def)
  qed
  then have q: "repr_quote (map byte_char bs) = CHR 0x27"
    by (simp add: repr_quote_def)
  have "concat (map (repr_char True (CHR 0x27)) (map byte_char bs)) = map byte_char bs"
    using assms by (induction bs) (simp_all add: repr_char_plain)
  with q show ?thesis
    by (simp add: bytes_repr_def Let_def)
qed

lemma bytes_repr_b64encode:
  "bytes_repr (b64encode bs) =
     ''b'' @ [CHR 0x27] @ map byte_char (b64encode bs) @ [CHR 0x27]"
  by (rule bytes_repr_plain) (simp add: b64encode_plain)

lemma read_resource_fetched:
  assumes "startswith u ''tos://''"
    and "split_once (drop 6 u) CHR ''/'' = [bucket, key]"
    and "get_object self bucket key = (cs, Inr response)"
  shows "read_resource valid_url self (Str u) =
           (cs, if is_text_file key
                then Inr (map byte_char (b64encode (dict_content response)))
                else if valid_url u
                then Inr (''b'' @ [CHR 0x27] @
                          map byte_char (b64encode (dict_content response)) @ [CHR 0x27])
                else Inl (ValidationError ''uri: Input should be a valid URL''))"
  using assms
  by (simp add: read_resource_def decode_utf8_b64encode bytes_repr_b64encode)

text \<open>
  The failures of \<open>read_resource\<close> before any call to the backend: on the \<open>AnyUrl\<close> of
  the handler whatever the URL, and on a \<open>str\<close> without the prefix or without a key.
\<close>

lemma read_resource_AnyUrl:
  "read_resource valid_url self (AnyUrl u) = ([], Inl (AttributeError ''startswith''))"
  by (simp add: read_resource_def)

lemma read_resource_str_no_prefix:
  assumes "\<not> startswith u ''tos://''"
  shows "read_resource valid_url self (Str u) =
           ([], Inl (ValueError ''Invalid TOS URI format''))"
  using assms by (simp add: read_resource_def)

lemma read_resource_str_no_key:
  assumes "startswith u ''tos://''" and "CHR ''/'' \<notin> set (drop 6 u)"
  shows "read_resource valid_url self (Str u) =
           ([], Inl (ValueError ''not enough values to unpack (expected 2, got 1)''))"
  using assms by (simp add: read_resource_def split_once_def)

text \<open>
  What leaves \<open>call_tool\<close>: the payload of the \<open>try\<close> body when it returns one, and
  the \<open>ValidationError\<close> of the \<open>except\<close> clause when the body raised.
\<close>

lemma call_tool_returns:
  "call_tool_try self name args = (cs, Inr payload) \<Longrightarrow>
   call_tool self name args = (cs, Inr payload)"
  by (simp add: call_tool_def)

lemma call_tool_raises:
  "call_tool_try self name args = (cs, Inl e) \<Longrightarrow>
   call_tool self name args = (cs, Inl (ValidationError ''type: Field required''))"
  by (simp add: call_tool_def text_payload_def TextContent_init_def)

lemma call_tool_GetObject:
  assumes "client_get_object (client self) [] args = Inr content"
    and "read content = Inr body" and "valid_utf8 (map unat body)"
  shows "call_tool self ''GetObject'' args =
           ([GetObjectCall [] args],
            Inr [\<lparr>type = ''text'', payload_text = map byte_char body\<rparr>])"
  using assms
  by (simp add: call_tool_def call_tool_try_def text_payload_def TextContent_init_def
      decode_utf8_def)

subsection \<open>The claims\<close>

text \<open>
  C1, as the code has it. With a non-empty allow-list, \<open>list_buckets\<close> of the adapter
  returns only buckets whose name is in the allow-list, and every resource that
  \<open>list_resources\<close> returns has a URI \<open>tos://n/k\<close> with \<open>n\<close> in the allow-list. The tool
  \<open>ListBuckets\<close> of \<open>call_tool\<close> asks the SDK client itself and returns the names of all
  the buckets the backend reports, whatever the allow-list.
\<close>

theorem allow_list_of_adapter_not_of_tool:
  assumes "configured_buckets self \<noteq> []"
  shows "(\<forall>bs. snd (list_buckets self) = Inr bs \<longrightarrow>
            (\<forall>b\<in>set bs. bucket_name b \<in> set (configured_buckets self)))
       \<and> (\<forall>rs. snd (list_resources self) = Inr rs \<longrightarrow>
            (\<forall>r\<in>set rs. \<exists>n\<in>set (configured_buckets self).
                \<exists>k. uri r = ''tos://'' @ n @ ''/'' @ k))
       \<and> (\<forall>response. client_list_buckets (client self) = Inr response \<longrightarrow>
            snd (call_tool self ''ListBuckets'' args) =
              Inr [\<lparr>type = ''text'',
                    payload_text = str_of_str_list (map bucket_name (buckets response))\<rparr>])"
  using assms list_buckets_names list_resources_uris
  by (simp add: call_tool_ListBuckets)

theorem allow_list_of_adapter_not_of_tool_witness:
  "configured_buckets (sample_resource [''a'']) \<noteq> []
   \<and> snd (list_buckets (sample_resource [''a''])) = Inr [\<lparr>bucket_name = ''a''\<rparr>]
   \<and> (\<exists>rs. snd (list_resources (sample_resource [''a''])) = Inr rs \<and> rs \<noteq> [] \<and>
         list_all (\<lambda>r. \<exists>k. uri r = ''tos://a/'' @ k) rs)
   \<and> snd (call_tool (sample_resource [''a'']) ''ListBuckets'' []) =
       Inr [\<lparr>type = ''text'', payload_text = ''['a', 'b', 'c']''\<rparr>]"
proof -
  let ?self = "sample_resource [''a'']"
  have ne: "configured_buckets ?self \<noteq> []"
    by (simp add: sample_configured)
  note inst = allow_list_of_adapter_not_of_tool [OF ne, of "[]"]
  have lb: "snd (list_buckets ?self) = Inr [\<lparr>bucket_name = ''a''\<rparr>]"
    by (simp add: list_buckets_def sample_list_buckets sample_configured)
  have lo: "snd (list_objects ?self ''a'' [] None) =
              Inr [\<lparr>object_key = ''notes.txt''\<rparr>, \<lparr>object_key = ''img.bin''\<rparr>]"
    by (simp add: list_objects_def sample_resource_def sample_client_def
        sample_list_objects_def)
  have "\<exists>rs. snd (list_resources ?self) = Inr rs \<and> rs \<noteq> []"
    by (simp add: list_resources_snd lb process_bucket_snd lo)
  then obtain rs where rs: "snd (list_resources ?self) = Inr rs" and n: "rs \<noteq> []"
    by blast
  from inst rs have "\<forall>r\<in>set rs. \<exists>n\<in>set (configured_buckets ?self).
      \<exists>k. uri r = ''tos://'' @ n @ ''/'' @ k"
    by blast
  then have u: "list_all (\<lambda>r. \<exists>k. uri r = ''tos://a/'' @ k) rs"
    by (simp add: sample_configured list_all_iff)
  from inst sample_list_buckets [of "[''a'']"]
  have "snd (call_tool ?self ''ListBuckets'' []) =
          Inr [\<lparr>type = ''text'',
                payload_text = str_of_str_list (map bucket_name
                  [\<lparr>bucket_name = ''a''\<rparr>, \<lparr>bucket_name = ''b''\<rparr>,
                   \<lparr>bucket_name = ''c''\<rparr>])\<rparr>]"
    by simp
  then have ct: "snd (call_tool ?self ''ListBuckets'' []) =
          Inr [\<lparr>type = ''text'', payload_text = ''['a', 'b', 'c']''\<rparr>]"
    by (simp add: str_of_sample_names)
  from ne lb rs n u ct show ?thesis by blast
qed

text \<open>
  C1, as stated, fails. The allow-list holds the one bucket \<open>a\<close>, the backend reports
  the buckets \<open>a\<close>, \<open>b\<close> and \<open>c\<close>, and \<open>call_tool\<close> with the name \<open>ListBuckets\<close>
  returns the text \<open>['a', 'b', 'c']\<close>: the buckets \<open>b\<close> and \<open>c\<close> are outside the
  allow-list.
\<close>

theorem call_tool_ListBuckets_outside_allow_list:
  "configured_buckets (sample_resource [''a'']) = [''a'']
   \<and> call_tool (sample_resource [''a'']) ''ListBuckets'' [] =
       ([ListBucketsCall], Inr [\<lparr>type = ''text'', payload_text = ''['a', 'b', 'c']''\<rparr>])
   \<and> ''b'' \<notin> set (configured_buckets (sample_resource [''a'']))"
  by (simp add: call_tool_ListBuckets [OF sample_list_buckets] sample_configured
      str_of_sample_names)

text \<open>
  C2 on the code. The backend holds the bytes \<open>hi\<close> under \<open>(b, k)\<close> and under
  \<open>(b, k.txt)\<close>. Called with the \<open>str\<close> \<open>tos://b/k.txt\<close>, the key a text file,
  \<open>read_resource\<close> returns the base64 text \<open>aGk=\<close>. Called with the \<open>str\<close>
  \<open>tos://b/k\<close>, the key not a text file, it returns \<open>b'aGk='\<close>, the \<open>str\<close> of the
  \<open>bytes\<close> object, which is not the base64 encoding and differs from the first (or it
  raises, should the library refuse the URL). Called with the \<open>AnyUrl\<close> of the handler
  it returns nothing: it raises \<open>AttributeError\<close>.
\<close>

theorem read_resource_hi:
  "read_resource valid_url (sample_resource []) (Str ''tos://b/k.txt'') =
     ([GetObjectCall [PyStr ''b'', PyStr ''k.txt''] []], Inr ''aGk='')
   \<and> read_resource valid_url (sample_resource []) (Str ''tos://b/k'') =
     ([GetObjectCall [PyStr ''b'', PyStr ''k''] []],
      if valid_url ''tos://b/k'' then Inr (''b'aGk='' @ [CHR 0x27])
      else Inl (ValidationError ''uri: Input should be a valid URL''))
   \<and> read_resource valid_url (sample_resource []) (AnyUrl ''tos://b/k'') =
     ([], Inl (AttributeError ''startswith''))
   \<and> is_text_file ''k.txt'' \<and> \<not> is_text_file ''k''"
proof -
  have sw: "startswith ''tos://b/k.txt'' ''tos://''" "startswith ''tos://b/k'' ''tos://''"
    by code_simp+
  have sp: "split_once ''b/k.txt'' CHR ''/'' = [''b'', ''k.txt'']"
    "split_once ''b/k'' CHR ''/'' = [''b'', ''k'']"
    by code_simp+
  have tf: "is_text_file ''k.txt''" "\<not> is_text_file ''k''"
    by code_simp+
  have t: "read_resource valid_url (sample_resource []) (Str ''tos://b/k.txt'') =
     ([GetObjectCall [PyStr ''b'', PyStr ''k.txt''] []], Inr ''aGk='')"
    by (simp add: read_resource_def sw sp tf sample_get_hi b64encode_hi decode_utf8_aGk)
  have b: "read_resource valid_url (sample_resource []) (Str ''tos://b/k'') =
     ([GetObjectCall [PyStr ''b'', PyStr ''k''] []],
      if valid_url ''tos://b/k'' then Inr (''b'aGk='' @ [CHR 0x27])
      else Inl (ValidationError ''uri: Input should be a valid URL''))"
    by (simp add: read_resource_def sw sp tf sample_get_hi b64encode_hi bytes_repr_aGk)
  have a: "read_resource valid_url (sample_resource []) (AnyUrl ''tos://b/k'') =
     ([], Inl (AttributeError ''startswith''))"
    by (simp add: read_resource_def)
  from t b a tf show ?thesis by blast
qed

text \<open>
  C3. When the backend's bucket listing returns the sequence \<open>B\<close> and the allow-list is
  \<open>L\<close>, \<open>list_buckets\<close> returns the buckets of \<open>B\<close> whose name is in \<open>L\<close> if \<open>L\<close> is
  not empty, and \<open>B\<close> itself if it is, in the backend's order in both cases.
\<close>

theorem list_buckets_allow_list:
  assumes "client_list_buckets (client self) = Inr response"
    and "configured_buckets self = L" and "buckets response = B"
  shows "snd (list_buckets self) =
           Inr (if L \<noteq> [] then filter (\<lambda>b. bucket_name b \<in> set L) B else B)
         \<and> (\<exists>bs. snd (list_buckets self) = Inr bs \<and> subseq bs B)"
  using assms by (simp add: list_buckets_def)

theorem list_buckets_allow_list_witness:
  "snd (list_buckets (sample_resource [''c'', ''a''])) =
     Inr [\<lparr>bucket_name = ''a''\<rparr>, \<lparr>bucket_name = ''c''\<rparr>]
   \<and> snd (list_buckets (sample_resource [])) =
     Inr [\<lparr>bucket_name = ''a''\<rparr>, \<lparr>bucket_name = ''b''\<rparr>, \<lparr>bucket_name = ''c''\<rparr>]"
proof -
  let ?r = "\<lparr>buckets = [\<lparr>bucket_name = ''a''\<rparr>, \<lparr>bucket_name = ''b''\<rparr>,
                         \<lparr>bucket_name = ''c''\<rparr>]\<rparr>"
  show ?thesis
    using list_buckets_allow_list [OF sample_list_buckets sample_configured,
        of "buckets ?r" "[''c'', ''a'']"]
      list_buckets_allow_list [OF sample_list_buckets sample_configured,
        of "buckets ?r" "[]"]
    by simp
qed

text \<open>
  C4. \<open>is_text_file key\<close> holds exactly when the lowercased key ends with one of
  \<open>.txt\<close>, \<open>.log\<close>, \<open>.csv\<close>, \<open>.json\<close>, \<open>.xml\<close>, \<open>.md\<close>; so \<open>a.TXT\<close> is a text
  file, \<open>a.bin\<close> and \<open>noext\<close> are not.
\<close>

theorem is_text_file_iff_suffix:
  "(is_text_file key \<longleftrightarrow>
      (\<exists>p. lower key = p @ ''.txt'') \<or> (\<exists>p. lower key = p @ ''.log'') \<or>
      (\<exists>p. lower key = p @ ''.csv'') \<or> (\<exists>p. lower key = p @ ''.json'') \<or>
      (\<exists>p. lower key = p @ ''.xml'') \<or> (\<exists>p. lower key = p @ ''.md''))
   \<and> is_text_file ''a.TXT'' \<and> \<not> is_text_file ''a.bin'' \<and> \<not> is_text_file ''noext''"
proof -
  have gen: "is_text_file key \<longleftrightarrow>
      (\<exists>p. lower key = p @ ''.txt'') \<or> (\<exists>p. lower key = p @ ''.log'') \<or>
      (\<exists>p. lower key = p @ ''.csv'') \<or> (\<exists>p. lower key = p @ ''.json'') \<or>
      (\<exists>p. lower key = p @ ''.xml'') \<or> (\<exists>p. lower key = p @ ''.md'')"
    unfolding is_text_file_def text_exts_def
    by (simp add: endswith_suffix suffix_def)
  have a: "is_text_file ''a.TXT''"
    by code_simp
  have b: "\<not> is_text_file ''a.bin''"
    by code_simp
  have c: "\<not> is_text_file ''noext''"
    by code_simp
  from gen a b c show ?thesis by blast
qed

text \<open>
  C5 on the code. The handler is called with the \<open>AnyUrl\<close> \<open>http://b/k\<close>. The call
  \<open>uri.startswith\<close> raises \<open>AttributeError\<close>, and that exception leaves
  \<open>read_resource\<close>, not the invalid-URI error; no call to the backend has been made.
  Only a direct call with the \<open>str\<close> \<open>http://b/k\<close> raises the invalid-URI error,
  \<open>ValueError("Invalid TOS URI format")\<close>.
\<close>

theorem read_resource_http:
  "read_resource valid_url self (AnyUrl ''http://b/k'') =
     ([], Inl (AttributeError ''startswith''))
   \<and> read_resource valid_url self (Str ''http://b/k'') =
     ([], Inl (ValueError ''Invalid TOS URI format''))"
proof -
  have "\<not> startswith ''http://b/k'' ''tos://''"
    by code_simp
  then show ?thesis
    by (simp add: read_resource_AnyUrl read_resource_str_no_prefix)
qed

text \<open>
  C6. When the backend answers the object fetch with a server error, \<open>get_object\<close>
  raises the not-found error (a \<open>ValueError\<close> naming the key and the bucket) if the
  status code is 404, and otherwise re-raises the server error itself, with the backend's
  status code and message; it raises nothing else in that case.
\<close>

theorem get_object_backend_error:
  assumes "client_get_object (client self) [PyStr bucket, PyStr key] [] =
             Inl (TosServerError sc msg r)"
  shows "snd (get_object self bucket key) =
           Inl (if sc = 404 then ValueError (''Object '' @ key @ '' not found in '' @ bucket)
                else TosServerError sc msg r)"
  using assms by (simp add: get_object_def get_object_except_def)

theorem get_object_backend_error_witness:
  "snd (get_object (sample_resource []) ''b'' ''gone'') =
     Inl (ValueError ''Object gone not found in b'')
   \<and> snd (get_object (sample_resource []) ''b'' ''secret'') =
     Inl (TosServerError 403 ''Access Denied'' ''AccessDenied'')"
proof -
  have g: "client_get_object (client (sample_resource [])) [PyStr ''b'', PyStr ''gone''] [] =
             Inl (TosServerError 404 ''The specified key does not exist.'' ''NoSuchKey'')"
    by (simp add: sample_resource_def sample_client_def sample_get_object_def)
  have s: "client_get_object (client (sample_resource [])) [PyStr ''b'', PyStr ''secret''] [] =
             Inl (TosServerError 403 ''Access Denied'' ''AccessDenied'')"
    by (simp add: sample_resource_def sample_client_def sample_get_object_def)
  show ?thesis
    using get_object_backend_error [OF g] get_object_backend_error [OF s]
    by simp
qed

text \<open>
  C7 on the code. For the name \<open>Nonexistent\<close> the body of the \<open>try\<close> raises
  \<open>ValueError("Unsupported operation")\<close>; the \<open>except\<close> clause then builds its
  \<open>TextContent\<close> without the required \<open>type\<close>, the constructor raises
  \<open>ValidationError\<close>, and that exception leaves \<open>call_tool\<close>: no payload is returned.
\<close>

theorem call_tool_unsupported_raises:
  "call_tool_try self ''Nonexistent'' args = ([], Inl (ValueError ''Unsupported operation''))
   \<and> call_tool self ''Nonexistent'' args =
       ([], text_payload None ''Error: Unsupported operation'')
   \<and> call_tool self ''Nonexistent'' args = ([], Inl (ValidationError ''type: Field required''))"
  by (simp add: call_tool_def call_tool_try_def text_payload_def TextContent_init_def)

text \<open>
  C9. When the bucket enumeration fails, or the object listing of one of the enumerated
  buckets fails, \<open>list_resources\<close> returns no resources: it raises the exception of the
  enumeration, or the exception of one of the failed listings.
\<close>

theorem list_resources_no_partial_result:
  assumes "isl (snd (list_buckets self)) \<or>
           (\<exists>bs. snd (list_buckets self) = Inr bs \<and>
              (\<exists>b\<in>set bs. isl (snd (list_objects self (bucket_name b) [] None))))"
  shows "\<exists>e. snd (list_resources self) = Inl e \<and>
           (snd (list_buckets self) = Inl e \<or>
            (\<exists>bs. snd (list_buckets self) = Inr bs \<and>
               (\<exists>b\<in>set bs. snd (list_objects self (bucket_name b) [] None) = Inl e)))"
proof (cases "snd (list_buckets self)")
  case (Inl e)
  then show ?thesis by (simp add: list_resources_snd)
next
  case (Inr bs)
  with assms obtain b where b: "b \<in> set bs"
    and f: "isl (snd (list_objects self (bucket_name b) [] None))"
    by auto
  let ?tasks = "map (\<lambda>b. snd (process_bucket self b)) bs"
  from f obtain e0 where "snd (list_objects self (bucket_name b) [] None) = Inl e0"
    by (auto simp: isl_def)
  then have "isl (snd (process_bucket self b))"
    by (simp add: process_bucket_snd)
  with b have "\<exists>x\<in>set ?tasks. isl x"
    by auto
  then obtain e where e: "first_exception ?tasks = Inl e" and m: "Inl e \<in> set ?tasks"
    using first_exception_raises by blast
  from m obtain b' where b': "b' \<in> set bs" and p: "snd (process_bucket self b') = Inl e"
    by auto
  from p have "snd (list_objects self (bucket_name b') [] None) = Inl e"
    by (auto simp: process_bucket_snd split: sum.splits)
  with Inr e b' show ?thesis
    by (auto simp: list_resources_snd)
qed

theorem list_resources_no_partial_result_witness:
  "snd (list_buckets (sample_resource [])) =
     Inr [\<lparr>bucket_name = ''a''\<rparr>, \<lparr>bucket_name = ''b''\<rparr>, \<lparr>bucket_name = ''c''\<rparr>]
   \<and> isl (snd (list_objects (sample_resource []) ''c'' [] None))
   \<and> (\<exists>e. snd (list_resources (sample_resource [])) = Inl e)"
proof -
  let ?self = "sample_resource []"
  have lb: "snd (list_buckets ?self) =
     Inr [\<lparr>bucket_name = ''a''\<rparr>, \<lparr>bucket_name = ''b''\<rparr>, \<lparr>bucket_name = ''c''\<rparr>]"
    by (simp add: list_buckets_def sample_list_buckets sample_configured)
  have lo: "isl (snd (list_objects ?self ''c'' [] None))"
    by (simp add: list_objects_def sample_resource_def sample_client_def
        sample_list_objects_def list_objects_kwargs_def)
  have "isl (snd (list_buckets ?self)) \<or>
        (\<exists>bs. snd (list_buckets ?self) = Inr bs \<and>
           (\<exists>b\<in>set bs. isl (snd (list_objects ?self (bucket_name b) [] None))))"
    using lb lo by simp
  from list_resources_no_partial_result [OF this]
  have "\<exists>e. snd (list_resources ?self) = Inl e"
    by blast
  with lb lo show ?thesis
    by blast
qed

text \<open>
  C10 on the code. The handler is called with the \<open>AnyUrl\<close> \<open>tos://bucketonly\<close>. The
  call \<open>uri.startswith\<close> raises \<open>AttributeError\<close> and the split is not reached: the
  exception that leaves \<open>read_resource\<close> is not the \<open>ValueError\<close> of the unpacking; no
  call to the backend has been made. Only a direct call with the \<open>str\<close>
  \<open>tos://bucketonly\<close> raises that \<open>ValueError\<close>.
\<close>

theorem read_resource_bucket_only:
  "read_resource valid_url self (AnyUrl ''tos://bucketonly'') =
     ([], Inl (AttributeError ''startswith''))
   \<and> read_resource valid_url self (Str ''tos://bucketonly'') =
     ([], Inl (ValueError ''not enough values to unpack (expected 2, got 1)''))"
proof -
  have "startswith ''tos://bucketonly'' ''tos://''"
    by code_simp
  moreover have "CHR ''/'' \<notin> set (drop 6 ''tos://bucketonly'')"
    by simp
  ultimately show ?thesis
    by (simp add: read_resource_AnyUrl read_resource_str_no_key)
qed

end
